theory Spec2Isabelle
  imports Complex_Main
begin

section \<open>Errors and results\<close>

text \<open>
  Every exception the modelled Python can raise is a value.  A computation that may raise
  returns \<open>error + 'a\<close>, with \<open>Inl\<close> carrying the exception.
\<close>

datatype error =
    SplitSizeError
  | ShapeError
  | EmptyCatError
  | ReshapeError
  | AttributeError string
  | UnboundLocalError string

definition bind_result :: "error + 'a \<Rightarrow> ('a \<Rightarrow> error + 'b) \<Rightarrow> error + 'b" where
  "bind_result r f = (case r of Inl e \<Rightarrow> Inl e | Inr v \<Rightarrow> f v)"

section \<open>Tensors of shape [batch, channels]\<close>

text \<open>
  The network input is a tensor whose last dimension holds the channels; the leading
  dimensions are flattened to one batch axis.  A tensor records its channel count next to
  its rows, so that an empty batch still has a shape.  Scalars are any type with
  \<open>0\<close>, \<open>+\<close>, \<open>*\<close> and an order: no law of arithmetic is used anywhere.
\<close>

datatype 'a tensor = Tensor (ncols: nat) (rows: "'a list list")

definition nrows :: "'a tensor \<Rightarrow> nat" where
  "nrows t = length (rows t)"

definition wf_tensor :: "'a tensor \<Rightarrow> bool" where
  "wf_tensor t = list_all (\<lambda>r. length r = ncols t) (rows t)"

text \<open>\<open>torch.split(x, [a, b], dim=-1)\<close>: the sizes must sum to the size of the dimension.\<close>

definition torch_split :: "'a tensor \<Rightarrow> nat \<Rightarrow> nat \<Rightarrow> error + ('a tensor \<times> 'a tensor)" where
  "torch_split x a b =
     (if ncols x \<noteq> a + b then Inl SplitSizeError
      else Inr (Tensor a (map (take a) (rows x)), Tensor b (map (drop a) (rows x))))"

text \<open>\<open>torch.cat([x, y], -1)\<close>: every dimension but the last must agree.\<close>

definition torch_cat :: "'a tensor \<Rightarrow> 'a tensor \<Rightarrow> error + 'a tensor" where
  "torch_cat x y =
     (if nrows x \<noteq> nrows y then Inl ShapeError
      else Inr (Tensor (ncols x + ncols y) (map2 (@) (rows x) (rows y))))"

definition relu :: "'a::{zero,ord} \<Rightarrow> 'a" where
  "relu v = (if v \<le> 0 then 0 else v)"

definition F_relu :: "'a::{zero,ord} tensor \<Rightarrow> 'a tensor" where
  "F_relu t = Tensor (ncols t) (map (map relu) (rows t))"

section \<open>Parameters and linear layers\<close>

text \<open>
  A parameter tensor is an object with an identity.  The store maps the identity of a
  parameter and an index to the value held there; the optimizer changes the store, never
  the shapes, which \<open>nn.Linear\<close> fixes at construction.
\<close>

type_synonym 'a params = "nat \<Rightarrow> nat list \<Rightarrow> 'a"

record linear =
  in_features :: nat
  out_features :: nat
  weight :: nat
  bias :: nat

text \<open>The store that holds the same value at every index of every parameter.\<close>

definition const_params :: "'a \<Rightarrow> 'a params" where
  "const_params c p idx = c"

text \<open>\<open>nn.Linear(i, out)\<close> allocates two fresh parameters; the state is the next free identity.\<close>

definition Linear_init :: "nat \<Rightarrow> nat \<Rightarrow> nat \<Rightarrow> linear \<times> nat" where
  "Linear_init i out s =
     (\<lparr>in_features = i, out_features = out, weight = s, bias = s + 1\<rparr>, s + 2)"

fun linears_init :: "(nat \<times> nat) list \<Rightarrow> nat \<Rightarrow> linear list \<times> nat" where
  "linears_init [] s = ([], s)"
| "linears_init (sh # shs) s =
     (let (l, s1) = Linear_init (fst sh) (snd sh) s;
          (ls, s2) = linears_init shs s1
      in (l # ls, s2))"

definition dot :: "'a::{zero,plus,times} list \<Rightarrow> (nat \<Rightarrow> 'a) \<Rightarrow> 'a" where
  "dot r w = foldl (\<lambda>acc (k, v). acc + v * w k) 0 (enumerate 0 r)"

definition linear_row :: "'a::{zero,plus,times} params \<Rightarrow> linear \<Rightarrow> 'a list \<Rightarrow> 'a list" where
  "linear_row \<theta> l r =
     map (\<lambda>j. dot r (\<lambda>k. \<theta> (weight l) [j, k]) + \<theta> (bias l) [j]) [0..<out_features l]"

text \<open>Applying a linear layer: the last dimension must equal \<open>in_features\<close>.\<close>

definition linear_forward :: "'a::{zero,plus,times} params \<Rightarrow> linear \<Rightarrow> 'a tensor \<Rightarrow> error + 'a tensor" where
  "linear_forward \<theta> l x =
     (if ncols x \<noteq> in_features l then Inl ShapeError
      else Inr (Tensor (out_features l) (map (linear_row \<theta> l) (rows x))))"

section \<open>The radiance network\<close>

record nerf =
  D :: int
  W :: nat
  input_ch :: nat
  input_ch_views :: nat
  skips :: "int list"
  use_viewdirs :: bool
  pts_linears :: "linear list"
  views_linears :: "linear list"
  feature_linear :: "linear option"
  alpha_linear :: "linear option"
  rgb_linear :: "linear option"
  output_linear :: "linear option"

text \<open>
  \<open>NeRF.__init__\<close>.  The trunk is \<open>Linear(input_ch, W)\<close> followed by one layer for each
  \<open>i\<close> in \<open>range(D - 1)\<close>, widened by \<open>input_ch\<close> when \<open>i\<close> is a skip index.  The heads
  that exist depend on \<open>use_viewdirs\<close>; the others are absent attributes.
\<close>

definition pts_shapes :: "int \<Rightarrow> nat \<Rightarrow> nat \<Rightarrow> int list \<Rightarrow> (nat \<times> nat) list" where
  "pts_shapes d w ic sk =
     (ic, w) # map (\<lambda>i. if i \<notin> set sk then (w, w) else (w + ic, w)) [0..d - 2]"

definition NeRF_init ::
  "int \<Rightarrow> nat \<Rightarrow> nat \<Rightarrow> nat \<Rightarrow> nat \<Rightarrow> int list \<Rightarrow> bool \<Rightarrow> nat \<Rightarrow> nerf \<times> nat" where
  "NeRF_init d w ic icv oc sk uv s =
     (let (pts, s1) = linears_init (pts_shapes d w ic sk) s;
          (views, s2) = linears_init [(icv + w, w div 2)] s1
      in if uv then
           (let (fl, s3) = Linear_init w w s2;
                (al, s4) = Linear_init w 1 s3;
                (rl, s5) = Linear_init (w div 2) 3 s4
            in (\<lparr>D = d, W = w, input_ch = ic, input_ch_views = icv, skips = sk,
                 use_viewdirs = uv, pts_linears = pts, views_linears = views,
                 feature_linear = Some fl, alpha_linear = Some al, rgb_linear = Some rl,
                 output_linear = None\<rparr>, s5))
         else
           (let (ol, s3) = Linear_init w oc s2
            in (\<lparr>D = d, W = w, input_ch = ic, input_ch_views = icv, skips = sk,
                 use_viewdirs = uv, pts_linears = pts, views_linears = views,
                 feature_linear = None, alpha_linear = None, rgb_linear = None,
                 output_linear = Some ol\<rparr>, s3)))"

text \<open>Reading an attribute that \<open>__init__\<close> did not set raises \<open>AttributeError\<close>.\<close>

definition attr :: "string \<Rightarrow> 'b option \<Rightarrow> error + 'b" where
  "attr name v = (case v of None \<Rightarrow> Inl (AttributeError name) | Some l \<Rightarrow> Inr l)"

text \<open>The loop \<open>for i, l in enumerate(self.pts_linears)\<close> of \<open>NeRF.forward\<close>.\<close>

fun pts_loop ::
  "'a::{zero,plus,times,ord} params \<Rightarrow> int list \<Rightarrow> 'a tensor \<Rightarrow> int \<Rightarrow> linear list \<Rightarrow> 'a tensor
     \<Rightarrow> error + 'a tensor" where
  "pts_loop \<theta> sk input_pts i [] h = Inr h"
| "pts_loop \<theta> sk input_pts i (l # ls) h =
     bind_result (linear_forward \<theta> l h) (\<lambda>h1.
       let h2 = F_relu h1 in
       if i \<in> set sk
       then bind_result (torch_cat input_pts h2) (\<lambda>h3. pts_loop \<theta> sk input_pts (i + 1) ls h3)
       else pts_loop \<theta> sk input_pts (i + 1) ls h2)"

text \<open>The loop \<open>for i, l in enumerate(self.views_linears)\<close>.\<close>

fun views_loop ::
  "'a::{zero,plus,times,ord} params \<Rightarrow> linear list \<Rightarrow> 'a tensor \<Rightarrow> error + 'a tensor" where
  "views_loop \<theta> [] h = Inr h"
| "views_loop \<theta> (l # ls) h =
     bind_result (linear_forward \<theta> l h) (\<lambda>h1. views_loop \<theta> ls (F_relu h1))"

definition forward :: "'a::{zero,plus,times,ord} params \<Rightarrow> nerf \<Rightarrow> 'a tensor \<Rightarrow> error + 'a tensor" where
  "forward \<theta> net x =
     bind_result (torch_split x (input_ch net) (input_ch_views net)) (\<lambda>(input_pts, input_views).
     bind_result (pts_loop \<theta> (skips net) input_pts 0 (pts_linears net) input_pts) (\<lambda>h.
       if use_viewdirs net then
         bind_result (attr ''alpha_linear'' (alpha_linear net)) (\<lambda>al.
         bind_result (linear_forward \<theta> al h) (\<lambda>alpha.
         bind_result (attr ''feature_linear'' (feature_linear net)) (\<lambda>fl.
         bind_result (linear_forward \<theta> fl h) (\<lambda>feature.
         bind_result (torch_cat feature input_views) (\<lambda>h1.
         bind_result (views_loop \<theta> (views_linears net) h1) (\<lambda>h2.
         bind_result (attr ''rgb_linear'' (rgb_linear net)) (\<lambda>rl.
         bind_result (linear_forward \<theta> rl h2) (\<lambda>rgb.
           torch_cat rgb alpha))))))))
       else
         bind_result (attr ''output_linear'' (output_linear net)) (\<lambda>ol.
           linear_forward \<theta> ol h)))"

text \<open>
  The view-dependent head in the words of the specification, for one row \<open>t\<close> of trunk
  features and one row \<open>v\<close> of encoded view direction: a linear density head with no
  activation, a linear feature layer, the feature joined with the view direction, one
  half-width layer with ReLU, a 3-channel linear head, and the output (RGB, density).
\<close>

definition spec_view_head_row ::
  "'a::{zero,plus,times,ord} params \<Rightarrow> linear \<Rightarrow> linear \<Rightarrow> linear \<Rightarrow> linear
     \<Rightarrow> 'a list \<Rightarrow> 'a list \<Rightarrow> 'a list" where
  "spec_view_head_row \<theta> al fl vl rl t v =
     (let density = linear_row \<theta> al t;
          feature = linear_row \<theta> fl t;
          hidden = map relu (linear_row \<theta> vl (feature @ v));
          rgb = linear_row \<theta> rl hidden
      in rgb @ density)"

text \<open>\<open>nn.Module.parameters()\<close>: the parameter objects a network owns, in registration order.\<close>

definition linear_parameters :: "linear \<Rightarrow> nat list" where
  "linear_parameters l = [weight l, bias l]"

definition option_list :: "'b option \<Rightarrow> 'b list" where
  "option_list v = (case v of None \<Rightarrow> [] | Some l \<Rightarrow> [l])"

definition parameters :: "nerf \<Rightarrow> nat list" where
  "parameters net =
     concat (map linear_parameters
       (pts_linears net @ views_linears net @ option_list (feature_linear net)
          @ option_list (alpha_linear net) @ option_list (rgb_linear net)
          @ option_list (output_linear net)))"

section \<open>The Lightning module\<close>

text \<open>
  The options \<open>create_model\<close> reads.  Those that are only handed on to the renderer are
  arbitrary Python values.
\<close>

datatype 'e pyval =
    PyNone
  | PyBool bool
  | PyInt int
  | PyFloat real
  | PyStr string
  | PyModule nerf
  | PyQueryFn 'e "'e option" "'e pyval"

record 'e args =
  args_multires :: int
  args_multires_views :: int
  args_i_embed :: int
  args_use_viewdirs :: bool
  args_num_fine_samples :: int
  args_num_coarse_samples :: "'e pyval"
  args_netdepth :: int
  args_netwidth :: nat
  args_netdepth_fine :: int
  args_netwidth_fine :: nat
  args_netchunk :: "'e pyval"
  args_perturb :: "'e pyval"
  args_white_bkgd :: "'e pyval"
  args_raw_noise_std :: "'e pyval"
  args_dataset_type :: string
  args_no_ndc :: bool
  args_lindisp :: "'e pyval"

record 'e lit =
  model :: nerf
  model_fine :: "nerf option"
  render_kwargs_train :: "string \<rightharpoonup> 'e pyval"
  render_kwargs_test :: "string \<rightharpoonup> 'e pyval"
  start :: int

definition module_value :: "nerf option \<Rightarrow> 'e pyval" where
  "module_value m = (case m of None \<Rightarrow> PyNone | Some n \<Rightarrow> PyModule n)"

text \<open>The comprehension \<open>{k : d[k] for k in d}\<close>.\<close>

definition dict_copy :: "('k \<rightharpoonup> 'v) \<Rightarrow> ('k \<rightharpoonup> 'v)" where
  "dict_copy d = (\<lambda>k. if k \<in> dom d then Some (the (d k)) else None)"

text \<open>
  \<open>LitJaxNeRF.create_model\<close>.  The positional embedder lives outside these sources and is
  a parameter: \<open>get_embedder multires i_embed\<close> returns the embedding function and its
  output channel count.  The state threaded through is the next free parameter identity.
\<close>

definition create_model ::
  "(int \<Rightarrow> int \<Rightarrow> 'e \<times> nat) \<Rightarrow> 'e args \<Rightarrow> 'e pyval \<Rightarrow> 'e pyval \<Rightarrow> nat \<Rightarrow> 'e lit \<times> nat" where
  "create_model get_embedder args near far s =
     (let (embed_fn, input_ch) = get_embedder (args_multires args) (args_i_embed args);
          (embeddirs_fn, input_ch_views) =
             (if args_use_viewdirs args
              then (let (fn, ch) = get_embedder (args_multires_views args) (args_i_embed args)
                    in (Some fn, ch))
              else (None, 0));
          output_ch = (if args_num_fine_samples args > 0 then 5 else 4);
          skips = [4];
          (model, s1) = NeRF_init (args_netdepth args) (args_netwidth args) input_ch
                          input_ch_views output_ch skips (args_use_viewdirs args) s;
          (model_fine, s2) =
             (if args_num_fine_samples args > 0
              then (let (m, s') = NeRF_init (args_netdepth_fine args) (args_netwidth_fine args)
                                    input_ch input_ch_views output_ch skips
                                    (args_use_viewdirs args) s1
                    in (Some m, s'))
              else (None, s1));
          network_query_fn = PyQueryFn embed_fn embeddirs_fn (args_netchunk args);
          render_kwargs_train =
            [''network_query_fn'' \<mapsto> network_query_fn,
             ''perturb'' \<mapsto> args_perturb args,
             ''num_fine_samples'' \<mapsto> PyInt (args_num_fine_samples args),
             ''network_fine'' \<mapsto> module_value model_fine,
             ''num_coarse_samples'' \<mapsto> args_num_coarse_samples args,
             ''network_fn'' \<mapsto> PyModule model,
             ''use_viewdirs'' \<mapsto> PyBool (args_use_viewdirs args),
             ''white_bkgd'' \<mapsto> args_white_bkgd args,
             ''raw_noise_std'' \<mapsto> args_raw_noise_std args,
             ''near'' \<mapsto> near,
             ''far'' \<mapsto> far];
          render_kwargs_train =
            (if args_dataset_type args \<noteq> ''llff'' \<or> args_no_ndc args
             then render_kwargs_train(''ndc'' \<mapsto> PyBool False, ''lindisp'' \<mapsto> args_lindisp args)
             else render_kwargs_train);
          render_kwargs_test = dict_copy render_kwargs_train;
          render_kwargs_test = render_kwargs_test(''perturb'' \<mapsto> PyBool False);
          render_kwargs_test = render_kwargs_test(''raw_noise_std'' \<mapsto> PyFloat 0)
      in (\<lparr>model = model, model_fine = model_fine,
            render_kwargs_train = render_kwargs_train,
            render_kwargs_test = render_kwargs_test, start = 0\<rparr>, s2))"

text \<open>
  \<open>LitJaxNeRF.training_step\<close>.  \<open>self(batch_rays)\<close> (the renderer), \<open>utils.img2mse\<close> and
  \<open>utils.mse2psnr\<close> live outside these sources and are parameters.  The local \<open>psnr0\<close> is
  bound only in the branch that finds \<open>"rgb0"\<close>; the calls of \<open>self.log\<close> append to the
  log, which is returned with the result.
\<close>

record ('r, 'i) batch =
  ray :: 'r
  target :: 'i

definition training_step ::
  "('r \<Rightarrow> 'i \<times> 'd \<times> 'd \<times> 'd \<times> (string \<rightharpoonup> 'i)) \<Rightarrow> ('i \<Rightarrow> 'i \<Rightarrow> 's::plus) \<Rightarrow> ('s \<Rightarrow> 's)
     \<Rightarrow> ('r, 'i) batch \<Rightarrow> (string \<times> 's) list \<Rightarrow> (error + 's) \<times> (string \<times> 's) list" where
  "training_step self_call img2mse mse2psnr b logged =
     (let batch_rays = ray b;
          tgt = target b;
          (rgb, disp, acc, depth, extras) = self_call batch_rays;
          img_loss = img2mse rgb tgt;
          loss1 = img_loss;
          loss = loss1;
          psnr = mse2psnr img_loss;
          (loss, psnr0) =
             (case extras ''rgb0'' of
                Some rgb0 \<Rightarrow>
                  (let loss0 = img2mse rgb0 tgt;
                       psnr0 = mse2psnr loss0
                   in (loss + loss0, Some psnr0))
              | None \<Rightarrow> (loss, None));
          logged1 = logged @ [(''train/psnr1'', psnr)]
      in case psnr0 of
           None \<Rightarrow> (Inl (UnboundLocalError ''psnr0''), logged1)
         | Some p0 \<Rightarrow> (Inr loss, logged1 @ [(''train/psnr0'', p0), (''train/loss'', loss)]))"

text \<open>
  \<open>LitJaxNeRF.gather_results\<close>.  A gathered step output holds, for each of its three
  tensors, one slice per device, each slice a list of rows.  \<open>all_gather\<close> belongs to the
  framework and is a parameter.  \<open>torch.cat\<close> of an empty list of tensors raises.
\<close>

record ('c, 'p) gathered =
  out_rgb :: "'c list list"
  out_target :: "'c list list"
  out_depth :: "'p list list"

definition torch_cat0 :: "'r list list \<Rightarrow> error + 'r list" where
  "torch_cat0 ts = (if ts = [] then Inl EmptyCatError else Inr (concat ts))"

fun map_result :: "('x \<Rightarrow> error + 'y) \<Rightarrow> 'x list \<Rightarrow> error + 'y list" where
  "map_result f [] = Inr []"
| "map_result f (x # xs) =
     bind_result (f x) (\<lambda>y. bind_result (map_result f xs) (\<lambda>ys. Inr (y # ys)))"

text \<open>The slice \<open>xs[:stop]\<close>: a negative bound counts from the end, and bounds are clamped.\<close>

definition slice_to :: "int \<Rightarrow> 'r list \<Rightarrow> 'r list" where
  "slice_to stop xs =
     (let n = int (length xs);
          j = (if stop < 0 then max 0 (stop + n) else min stop n)
      in take (nat j) xs)"

definition gather_results ::
  "('o list \<Rightarrow> ('c, 'p) gathered list) \<Rightarrow> 'o list \<Rightarrow> int
     \<Rightarrow> error + ('c list \<times> 'c list \<times> 'p list)" where
  "gather_results all_gather outputs dummy_num =
     (let outputs_gather = all_gather outputs in
      bind_result (bind_result (map_result (\<lambda>out. torch_cat0 (out_rgb out)) outputs_gather) torch_cat0)
        (\<lambda>rgbs.
      bind_result (bind_result (map_result (\<lambda>out. torch_cat0 (out_target out)) outputs_gather) torch_cat0)
        (\<lambda>tgt.
      bind_result (bind_result (map_result (\<lambda>out. torch_cat0 (out_depth out)) outputs_gather) torch_cat0)
        (\<lambda>depths.
      if dummy_num \<noteq> 0
      then Inr (slice_to (- dummy_num) rgbs, slice_to (- dummy_num) tgt,
                slice_to (- dummy_num) depths)
      else Inr (rgbs, tgt, depths)))))"

section \<open>Validation PSNR\<close>

text \<open>
  The values of a floating-point tensor: the finite ones, idealised as reals (no rounding,
  no overflow, one zero), the two infinities and NaN.  The operations follow IEEE 754 on
  the special values: \<open>log 0 = -inf\<close>, \<open>inf - inf\<close>, \<open>0 * inf\<close>, \<open>0 / 0\<close> and \<open>inf / inf\<close>
  are NaN, and NaN propagates.
\<close>

datatype fval = Finite real | PosInf | NegInf | NaN

definition is_finite :: "fval \<Rightarrow> bool" where
  "is_finite x = (case x of Finite a \<Rightarrow> True | PosInf \<Rightarrow> False | NegInf \<Rightarrow> False | NaN \<Rightarrow> False)"

definition f_neg :: "fval \<Rightarrow> fval" where
  "f_neg x = (case x of Finite a \<Rightarrow> Finite (- a) | PosInf \<Rightarrow> NegInf | NegInf \<Rightarrow> PosInf
              | NaN \<Rightarrow> NaN)"

definition f_add :: "fval \<Rightarrow> fval \<Rightarrow> fval" where
  "f_add x y =
     (case x of
        Finite a \<Rightarrow> (case y of Finite b \<Rightarrow> Finite (a + b) | PosInf \<Rightarrow> PosInf
                       | NegInf \<Rightarrow> NegInf | NaN \<Rightarrow> NaN)
      | PosInf \<Rightarrow> (case y of Finite b \<Rightarrow> PosInf | PosInf \<Rightarrow> PosInf | NegInf \<Rightarrow> NaN
                     | NaN \<Rightarrow> NaN)
      | NegInf \<Rightarrow> (case y of Finite b \<Rightarrow> NegInf | PosInf \<Rightarrow> NaN | NegInf \<Rightarrow> NegInf
                     | NaN \<Rightarrow> NaN)
      | NaN \<Rightarrow> NaN)"

definition f_sub :: "fval \<Rightarrow> fval \<Rightarrow> fval" where
  "f_sub x y = f_add x (f_neg y)"

definition signed_inf :: "bool \<Rightarrow> fval" where
  "signed_inf negative = (if negative then NegInf else PosInf)"

definition f_mul :: "fval \<Rightarrow> fval \<Rightarrow> fval" where
  "f_mul x y =
     (case x of
        Finite a \<Rightarrow> (case y of Finite b \<Rightarrow> Finite (a * b)
                       | PosInf \<Rightarrow> (if a = 0 then NaN else signed_inf (a < 0))
                       | NegInf \<Rightarrow> (if a = 0 then NaN else signed_inf (0 < a))
                       | NaN \<Rightarrow> NaN)
      | PosInf \<Rightarrow> (case y of Finite b \<Rightarrow> (if b = 0 then NaN else signed_inf (b < 0))
                     | PosInf \<Rightarrow> PosInf | NegInf \<Rightarrow> NegInf | NaN \<Rightarrow> NaN)
      | NegInf \<Rightarrow> (case y of Finite b \<Rightarrow> (if b = 0 then NaN else signed_inf (0 < b))
                     | PosInf \<Rightarrow> NegInf | NegInf \<Rightarrow> PosInf | NaN \<Rightarrow> NaN)
      | NaN \<Rightarrow> NaN)"

definition f_div :: "fval \<Rightarrow> fval \<Rightarrow> fval" where
  "f_div x y =
     (case x of
        Finite a \<Rightarrow> (case y of
                         Finite b \<Rightarrow> (if b = 0 then (if a = 0 then NaN else signed_inf (a < 0))
                                       else Finite (a / b))
                       | PosInf \<Rightarrow> Finite 0 | NegInf \<Rightarrow> Finite 0 | NaN \<Rightarrow> NaN)
      | PosInf \<Rightarrow> (case y of Finite b \<Rightarrow> signed_inf (b < 0) | PosInf \<Rightarrow> NaN
                     | NegInf \<Rightarrow> NaN | NaN \<Rightarrow> NaN)
      | NegInf \<Rightarrow> (case y of Finite b \<Rightarrow> signed_inf (0 \<le> b) | PosInf \<Rightarrow> NaN
                     | NegInf \<Rightarrow> NaN | NaN \<Rightarrow> NaN)
      | NaN \<Rightarrow> NaN)"

text \<open>\<open>torch.log\<close>: no clamping of its own; it is \<open>-inf\<close> at zero and NaN below.\<close>

definition f_log :: "fval \<Rightarrow> fval" where
  "f_log x =
     (case x of
        Finite a \<Rightarrow> (if a < 0 then NaN else if a = 0 then NegInf else Finite (ln a))
      | PosInf \<Rightarrow> PosInf | NegInf \<Rightarrow> NaN | NaN \<Rightarrow> NaN)"

text \<open>\<open>torch.mean\<close> over a list of values: the sum divided by the count (NaN when empty).\<close>

definition f_mean :: "fval list \<Rightarrow> fval" where
  "f_mean xs = f_div (foldl f_add (Finite 0) xs) (Finite (real (length xs)))"

text \<open>
  \<open>t.reshape(-1, k)\<close>: the values in order, cut into rows of \<open>k\<close>; it raises when \<open>k\<close> is
  zero or does not divide the number of values.
\<close>

definition chunks :: "nat \<Rightarrow> 'b list \<Rightarrow> 'b list list" where
  "chunks k flat = map (\<lambda>i. take k (drop (i * k) flat)) [0..<length flat div k]"

definition reshape_rows :: "nat \<Rightarrow> 'b list list \<Rightarrow> error + 'b list list" where
  "reshape_rows k t =
     (let flat = concat t in
      if k = 0 \<or> length flat mod k \<noteq> 0 then Inl ReshapeError else Inr (chunks k flat))"

text \<open>
  An elementwise operation on two tensors with rows of the same width: the row counts must
  agree, or one of them be 1 (broadcasting).
\<close>

definition elementwise ::
  "('b \<Rightarrow> 'b \<Rightarrow> 'b) \<Rightarrow> 'b list list \<Rightarrow> 'b list list \<Rightarrow> error + 'b list list" where
  "elementwise f a b =
     (if length a = length b then Inr (map2 (map2 f) a b)
      else if length a = 1 then Inr (map (map2 f (hd a)) b)
      else if length b = 1 then Inr (map (\<lambda>r. map2 f r (hd b)) a)
      else Inl ShapeError)"

text \<open>The line \<open>psnr = -10.0 * torch.log(mse) / np.log(10)\<close>, for one image.\<close>

definition mse_to_psnr :: "fval \<Rightarrow> fval" where
  "mse_to_psnr mse = f_div (f_mul (Finite (- 10)) (f_log mse)) (Finite (ln 10))"

text \<open>
  \<open>LitJaxNeRF.validation_epoch_end\<close>, with \<open>img_size = h * w\<close>.  The result is the logged
  mean PSNR and the log.
\<close>

definition validation_epoch_end ::
  "('o list \<Rightarrow> (fval list, 'p) gathered list) \<Rightarrow> 'o list \<Rightarrow> int \<Rightarrow> nat
     \<Rightarrow> (string \<times> fval) list \<Rightarrow> error + (fval \<times> (string \<times> fval) list)" where
  "validation_epoch_end all_gather outputs val_dummy img_size logged =
     bind_result (gather_results all_gather outputs val_dummy) (\<lambda>(rgbs, tgt, uu).
     bind_result (reshape_rows (img_size * 3) rgbs) (\<lambda>rgbs.
     bind_result (reshape_rows (img_size * 3) tgt) (\<lambda>tgt.
     bind_result (elementwise f_sub tgt rgbs) (\<lambda>diff.
       let mse = map (\<lambda>row. f_mean (map (\<lambda>d. f_mul d d) row)) diff;
           psnr = map mse_to_psnr mse;
           psnr_mean = f_mean psnr
       in Inr (psnr_mean, logged @ [(''validation/psnr'', psnr_mean)])))))"

text \<open>
  A small configuration and an embedder with three output channels, for the concrete
  instances below: a coarse and a fine network of depth 2 and width 2, with view directions.
\<close>

definition example_embedder :: "int \<Rightarrow> int \<Rightarrow> unit \<times> nat" where
  "example_embedder multires i_embed = ((), 3)"

definition example_args :: "unit args" where
  "example_args =
     \<lparr>args_multires = 0, args_multires_views = 0, args_i_embed = 0,
      args_use_viewdirs = True, args_num_fine_samples = 2,
      args_num_coarse_samples = PyInt 4, args_netdepth = 2, args_netwidth = 2,
      args_netdepth_fine = 2, args_netwidth_fine = 2, args_netchunk = PyInt 8,
      args_perturb = PyFloat 1, args_white_bkgd = PyBool True,
      args_raw_noise_std = PyFloat 1, args_dataset_type = ''blender'',
      args_no_ndc = False, args_lindisp = PyBool False\<rparr>"

section \<open>Auxiliary facts\<close>

lemma bind_result_Inr [simp]: "bind_result (Inr v) f = f v"
  by (simp add: bind_result_def)

lemma bind_result_Inl [simp]: "bind_result (Inl e) f = Inl e"
  by (simp add: bind_result_def)

lemma linear_row_length [simp]: "length (linear_row \<theta> l r) = out_features l"
  by (simp add: linear_row_def)

lemma linear_forward_ok:
  "ncols h = in_features l \<Longrightarrow>
   linear_forward \<theta> l h = Inr (Tensor (out_features l) (map (linear_row \<theta> l) (rows h)))"
  by (simp add: linear_forward_def)

lemma wf_linear_out [simp]: "wf_tensor (Tensor (out_features l) (map (linear_row \<theta> l) rs))"
  by (simp add: wf_tensor_def list_all_iff)

lemma F_relu_simps [simp]:
  "ncols (F_relu t) = ncols t" "nrows (F_relu t) = nrows t"
  "rows (F_relu t) = map (map relu) (rows t)"
  by (simp_all add: F_relu_def nrows_def)

lemma wf_F_relu [simp]: "wf_tensor (F_relu t) = wf_tensor t"
  by (simp add: wf_tensor_def F_relu_def list_all_iff)

lemma torch_cat_ok:
  "nrows x = nrows y \<Longrightarrow>
   torch_cat x y = Inr (Tensor (ncols x + ncols y) (map2 (@) (rows x) (rows y)))"
  by (simp add: torch_cat_def)

lemma wf_cat:
  "wf_tensor x \<Longrightarrow> wf_tensor y \<Longrightarrow>
   wf_tensor (Tensor (ncols x + ncols y) (map2 (@) (rows x) (rows y)))"
  by (auto simp: wf_tensor_def list_all_iff elim!: in_set_zipE)

lemma nrows_Tensor [simp]: "nrows (Tensor c rs) = length rs"
  by (simp add: nrows_def)

text \<open>One trunk step.\<close>

lemma pts_step:
  assumes "wf_tensor pts" "wf_tensor h" "nrows h = nrows pts" "ncols h = in_features l"
  shows "\<exists>h'. (\<forall>ls. pts_loop \<theta> sk pts i (l # ls) h = pts_loop \<theta> sk pts (i + 1) ls h')
          \<and> wf_tensor h' \<and> nrows h' = nrows pts
          \<and> ncols h' = (if i \<in> set sk then ncols pts + out_features l else out_features l)"
proof (cases "i \<in> set sk")
  case True
  let ?h2 = "F_relu (Tensor (out_features l) (map (linear_row \<theta> l) (rows h)))"
  let ?h3 = "Tensor (ncols pts + ncols ?h2) (map2 (@) (rows pts) (rows ?h2))"
  have n: "nrows pts = nrows ?h2" using assms(3) by (simp add: nrows_def)
  have "wf_tensor ?h3" by (rule wf_cat) (use assms(1) in simp_all)
  moreover have "nrows ?h3 = nrows pts" using assms(3) by (simp add: nrows_def)
  moreover have "\<forall>ls. pts_loop \<theta> sk pts i (l # ls) h = pts_loop \<theta> sk pts (i + 1) ls ?h3"
    using True by (simp add: linear_forward_ok[OF assms(4)] torch_cat_ok[OF n])
  ultimately show ?thesis using True by (intro exI[of _ ?h3]) simp
next
  case False
  let ?h2 = "F_relu (Tensor (out_features l) (map (linear_row \<theta> l) (rows h)))"
  have "\<forall>ls. pts_loop \<theta> sk pts i (l # ls) h = pts_loop \<theta> sk pts (i + 1) ls ?h2"
    using False by (simp add: linear_forward_ok[OF assms(4)])
  moreover have "nrows ?h2 = nrows pts" using assms(3) by (simp add: nrows_def)
  ultimately show ?thesis using False by (intro exI[of _ ?h2]) simp
qed

lemma linears_init_Cons:
  "fst (linears_init (sh # shs) s) =
     \<lparr>in_features = fst sh, out_features = snd sh, weight = s, bias = s + 1\<rparr>
       # fst (linears_init shs (s + 2))"
  by (simp add: Linear_init_def split: prod.splits)

lemma pts_loop_tail:
  assumes "wf_tensor pts" "ncols pts = ic"
  shows "wf_tensor h \<Longrightarrow> nrows h = nrows pts \<Longrightarrow>
         ncols h = (if k \<in> set sk then ic + w else w) \<Longrightarrow>
         \<exists>h'. pts_loop \<theta> sk pts (k + 1)
                 (fst (linears_init
                    (map (\<lambda>i. if i \<notin> set sk then (w, w) else (w + ic, w)) [k..e]) s)) h = Inr h'
             \<and> wf_tensor h' \<and> nrows h' = nrows pts
             \<and> ncols h' = (if max k (e + 1) \<in> set sk then ic + w else w)"
proof (induction "nat (e + 1 - k)" arbitrary: k s h)
  case 0
  then have "[k..e] = []" by simp
  moreover have "max k (e + 1) = k" using 0 by simp
  ultimately show ?case using 0 by simp
next
  case (Suc n)
  then have le: "k \<le> e" by linarith
  have up: "[k..e] = k # [k + 1..e]" using le by (simp add: upto_rec1)
  let ?l = "\<lparr>in_features = (if k \<in> set sk then w + ic else w), out_features = w,
              weight = s, bias = s + 1\<rparr>"
  let ?sh = "\<lambda>i. if i \<notin> set sk then (w, w) else (w + ic, w)"
  let ?rest = "fst (linears_init (map ?sh [k + 1..e]) (s + 2))"
  have layers: "fst (linears_init (map ?sh [k..e]) s) = ?l # ?rest"
    unfolding up by (simp add: linears_init_Cons del: linears_init.simps)
  have hin: "ncols h = in_features ?l" using Suc.prems(3) by simp
  from pts_step[OF assms(1) Suc.prems(1) Suc.prems(2) hin, of \<theta> sk "k + 1"]
  obtain h1 where step: "\<And>ls. pts_loop \<theta> sk pts (k + 1) (?l # ls) h = pts_loop \<theta> sk pts (k + 1 + 1) ls h1"
    and wf1: "wf_tensor h1" and n1: "nrows h1 = nrows pts"
    and c1: "ncols h1 = (if k + 1 \<in> set sk then ic + w else w)"
    using assms(2) by auto
  have m: "n = nat (e + 1 - (k + 1))" using Suc.hyps(2) by linarith
  from Suc.hyps(1)[OF m wf1 n1 c1, of "s + 2"]
  obtain h' where r: "pts_loop \<theta> sk pts (k + 1 + 1) ?rest h1 = Inr h'"
    and wf': "wf_tensor h'" and n': "nrows h' = nrows pts"
    and c': "ncols h' = (if max (k + 1) (e + 1) \<in> set sk then ic + w else w)"
    by blast
  have mx: "max (k + 1) (e + 1) = max k (e + 1)" using le by simp
  show ?case
    unfolding layers step using r wf' n' c' mx by simp
qed


lemma snd_linears_init: "snd (linears_init shs s) = s + 2 * length shs"
  by (induction shs arbitrary: s) (simp_all add: Linear_init_def case_prod_unfold)

lemma trunk_ok:
  assumes "wf_tensor pts" "ncols pts = ic"
  shows "\<exists>h. pts_loop \<theta> sk pts 0 (fst (linears_init (pts_shapes d w ic sk) s)) pts = Inr h
           \<and> wf_tensor h \<and> nrows h = nrows pts
           \<and> ncols h = (if max 0 (d - 1) \<in> set sk then ic + w else w)"
proof -
  let ?l = "\<lparr>in_features = ic, out_features = w, weight = s, bias = s + 1\<rparr>"
  let ?sh = "\<lambda>i. if i \<notin> set sk then (w, w) else (w + ic, w)"
  let ?rest = "fst (linears_init (map ?sh [0..d - 2]) (s + 2))"
  have layers: "fst (linears_init (pts_shapes d w ic sk) s) = ?l # ?rest"
    by (simp add: pts_shapes_def linears_init_Cons del: linears_init.simps)
  have hin: "ncols pts = in_features ?l" using assms(2) by simp
  from pts_step[OF assms(1) assms(1) refl hin, of \<theta> sk 0]
  obtain h1 where step: "\<And>ls. pts_loop \<theta> sk pts 0 (?l # ls) pts = pts_loop \<theta> sk pts (0 + 1) ls h1"
    and wf1: "wf_tensor h1" and n1: "nrows h1 = nrows pts"
    and c1: "ncols h1 = (if 0 \<in> set sk then ic + w else w)"
    using assms(2) by auto
  from pts_loop_tail[OF assms wf1 n1 c1, of \<theta> "d - 2" "s + 2"]
  obtain h where "pts_loop \<theta> sk pts (0 + 1) ?rest h1 = Inr h" "wf_tensor h" "nrows h = nrows pts"
    "ncols h = (if max 0 (d - 2 + 1) \<in> set sk then ic + w else w)"
    by blast
  then show ?thesis unfolding layers step by (intro exI[of _ h]) simp
qed

lemma NeRF_init_True:
  "fst (NeRF_init d w ic icv oc sk True s) =
     (let s1 = snd (linears_init (pts_shapes d w ic sk) s) in
      \<lparr>D = d, W = w, input_ch = ic, input_ch_views = icv, skips = sk, use_viewdirs = True,
       pts_linears = fst (linears_init (pts_shapes d w ic sk) s),
       views_linears = [\<lparr>in_features = icv + w, out_features = w div 2, weight = s1, bias = s1 + 1\<rparr>],
       feature_linear = Some \<lparr>in_features = w, out_features = w, weight = s1 + 2, bias = s1 + 3\<rparr>,
       alpha_linear = Some \<lparr>in_features = w, out_features = 1, weight = s1 + 4, bias = s1 + 5\<rparr>,
       rgb_linear = Some \<lparr>in_features = w div 2, out_features = 3, weight = s1 + 6, bias = s1 + 7\<rparr>,
       output_linear = None\<rparr>)"
  by (simp add: NeRF_init_def Linear_init_def Let_def split: prod.splits)

lemma NeRF_init_False:
  "fst (NeRF_init d w ic icv oc sk False s) =
     (let s1 = snd (linears_init (pts_shapes d w ic sk) s) in
      \<lparr>D = d, W = w, input_ch = ic, input_ch_views = icv, skips = sk, use_viewdirs = False,
       pts_linears = fst (linears_init (pts_shapes d w ic sk) s),
       views_linears = [\<lparr>in_features = icv + w, out_features = w div 2, weight = s1, bias = s1 + 1\<rparr>],
       feature_linear = None, alpha_linear = None, rgb_linear = None,
       output_linear = Some \<lparr>in_features = w, out_features = oc, weight = s1 + 2, bias = s1 + 3\<rparr>\<rparr>)"
  by (simp add: NeRF_init_def Linear_init_def Let_def split: prod.splits)

lemma snd_NeRF_init:
  "snd (NeRF_init d w ic icv oc sk uv s) =
     snd (linears_init (pts_shapes d w ic sk) s) + (if uv then 8 else 4)"
  by (simp add: NeRF_init_def Linear_init_def Let_def split: prod.splits)

lemma split_ok:
  "ncols x = a + b \<Longrightarrow>
   torch_split x a b = Inr (Tensor a (map (take a) (rows x)), Tensor b (map (drop a) (rows x)))"
  by (simp add: torch_split_def)

lemma wf_take: "wf_tensor x \<Longrightarrow> ncols x = a + b \<Longrightarrow> wf_tensor (Tensor a (map (take a) (rows x)))"
  by (auto simp: wf_tensor_def list_all_iff)

lemma wf_drop: "wf_tensor x \<Longrightarrow> ncols x = a + b \<Longrightarrow> wf_tensor (Tensor b (map (drop a) (rows x)))"
  by (auto simp: wf_tensor_def list_all_iff)

lemma attr_Some [simp]: "attr name (Some l) = Inr l"
  by (simp add: attr_def)

lemma head_rows:
  "length hs = length vs \<Longrightarrow>
   map2 (@) (map (linear_row \<theta> rl) (map (map relu) (map (linear_row \<theta> vl)
              (map2 (@) (map (linear_row \<theta> fl) hs) vs))))
            (map (linear_row \<theta> al) hs)
     = map2 (spec_view_head_row \<theta> al fl vl rl) hs vs"
  by (induction hs vs rule: list_induct2) (simp_all add: spec_view_head_row_def)

lemma head_viewdirs:
  fixes \<theta> :: "'a::{zero,plus,times,ord} params"
  assumes "ncols h = in_features al" "ncols h = in_features fl"
    and "out_features fl + ncols v = in_features vl" "out_features vl = in_features rl"
    and "nrows h = nrows v"
  shows "bind_result (linear_forward \<theta> al h) (\<lambda>alpha.
         bind_result (attr ''feature_linear'' (Some fl)) (\<lambda>fl.
         bind_result (linear_forward \<theta> fl h) (\<lambda>feature.
         bind_result (torch_cat feature v) (\<lambda>h1.
         bind_result (views_loop \<theta> [vl] h1) (\<lambda>h2.
         bind_result (attr ''rgb_linear'' (Some rl)) (\<lambda>rl.
         bind_result (linear_forward \<theta> rl h2) (\<lambda>rgb.
           torch_cat rgb alpha)))))))
       = Inr (Tensor (out_features rl + out_features al)
               (map2 (spec_view_head_row \<theta> al fl vl rl) (rows h) (rows v)))"
proof -
  have len: "length (rows h) = length (rows v)" using assms(5) by (simp add: nrows_def)
  let ?F = "map (linear_row \<theta> fl) (rows h)"
  let ?L = "map2 (@) ?F (rows v)"
  let ?M = "map (linear_row \<theta> vl) ?L"
  let ?X = "map (linear_row \<theta> rl) (map (map relu) ?M)"
  let ?Y = "map (linear_row \<theta> al) (rows h)"
  have a: "linear_forward \<theta> al h = Inr (Tensor (out_features al) ?Y)"
    by (rule linear_forward_ok[OF assms(1)])
  have f: "linear_forward \<theta> fl h = Inr (Tensor (out_features fl) ?F)"
    by (rule linear_forward_ok[OF assms(2)])
  have c: "torch_cat (Tensor (out_features fl) ?F) v = Inr (Tensor (out_features fl + ncols v) ?L)"
    using len by (simp add: torch_cat_def nrows_def)
  have vw: "views_loop \<theta> [vl] (Tensor (out_features fl + ncols v) ?L)
              = Inr (F_relu (Tensor (out_features vl) ?M))"
    using assms(3) by (simp add: linear_forward_def)
  have r: "linear_forward \<theta> rl (F_relu (Tensor (out_features vl) ?M)) = Inr (Tensor (out_features rl) ?X)"
    using assms(4) by (simp add: linear_forward_def F_relu_def)
  have c2: "torch_cat (Tensor (out_features rl) ?X) (Tensor (out_features al) ?Y)
              = Inr (Tensor (out_features rl + out_features al) (map2 (@) ?X ?Y))"
    using len by (simp add: torch_cat_def nrows_def)
  show ?thesis
    by (simp only: a f c vw r c2 bind_result_Inr attr_Some head_rows[OF len])
qed

lemma viewdirs_forward:
  fixes \<theta> :: "'a::{zero,plus,times,ord} params"
  assumes "max 0 (d - 1) \<notin> set sk" "wf_tensor x" "ncols x = ic + icv"
    and "net = fst (NeRF_init d w ic icv oc sk True s)"
    and "input_pts = Tensor ic (map (take ic) (rows x))"
    and "input_views = Tensor icv (map (drop ic) (rows x))"
  shows "\<exists>al fl vl rl h.
       alpha_linear net = Some al \<and> in_features al = w \<and> out_features al = 1
     \<and> feature_linear net = Some fl \<and> in_features fl = w \<and> out_features fl = w
     \<and> views_linears net = [vl] \<and> in_features vl = icv + w \<and> out_features vl = w div 2
     \<and> rgb_linear net = Some rl \<and> in_features rl = w div 2 \<and> out_features rl = 3
     \<and> pts_loop \<theta> sk input_pts 0 (pts_linears net) input_pts = Inr h
     \<and> ncols h = w \<and> nrows h = nrows x
     \<and> forward \<theta> net x
         = Inr (Tensor 4 (map2 (spec_view_head_row \<theta> al fl vl rl) (rows h) (rows input_views)))"
proof -
  let ?s1 = "snd (linears_init (pts_shapes d w ic sk) s)"
  let ?vl = "\<lparr>in_features = icv + w, out_features = w div 2, weight = ?s1, bias = ?s1 + 1\<rparr>"
  let ?fl = "\<lparr>in_features = w, out_features = w, weight = ?s1 + 2, bias = ?s1 + 3\<rparr>"
  let ?al = "\<lparr>in_features = w, out_features = 1, weight = ?s1 + 4, bias = ?s1 + 5\<rparr>"
  let ?rl = "\<lparr>in_features = w div 2, out_features = 3, weight = ?s1 + 6, bias = ?s1 + 7\<rparr>"
  have net: "net = \<lparr>D = d, W = w, input_ch = ic, input_ch_views = icv, skips = sk,
       use_viewdirs = True, pts_linears = fst (linears_init (pts_shapes d w ic sk) s),
       views_linears = [?vl], feature_linear = Some ?fl, alpha_linear = Some ?al,
       rgb_linear = Some ?rl, output_linear = None\<rparr>"
    unfolding assms(4) NeRF_init_True by (simp add: Let_def)
  have wfp: "wf_tensor input_pts" unfolding assms(5) by (rule wf_take[OF assms(2,3)])
  have cp: "ncols input_pts = ic" unfolding assms(5) by simp
  from trunk_ok[OF wfp cp, where \<theta> = \<theta> and sk = sk and d = d and w = w and s = s] assms(1)
  obtain h where h: "pts_loop \<theta> sk input_pts 0 (fst (linears_init (pts_shapes d w ic sk) s)) input_pts = Inr h"
    and wfh: "wf_tensor h" and nh: "nrows h = nrows input_pts" and ch: "ncols h = w"
    by auto
  have nx: "nrows h = nrows x" using nh unfolding assms(5) by (simp add: nrows_def)
  have nv: "nrows h = nrows input_views" using nx unfolding assms(6) by (simp add: nrows_def)
  have head: "bind_result (linear_forward \<theta> ?al h) (\<lambda>alpha.
         bind_result (attr ''feature_linear'' (Some ?fl)) (\<lambda>fl.
         bind_result (linear_forward \<theta> fl h) (\<lambda>feature.
         bind_result (torch_cat feature input_views) (\<lambda>h1.
         bind_result (views_loop \<theta> [?vl] h1) (\<lambda>h2.
         bind_result (attr ''rgb_linear'' (Some ?rl)) (\<lambda>rl.
         bind_result (linear_forward \<theta> rl h2) (\<lambda>rgb.
           torch_cat rgb alpha)))))))
       = Inr (Tensor (out_features ?rl + out_features ?al)
               (map2 (spec_view_head_row \<theta> ?al ?fl ?vl ?rl) (rows h) (rows input_views)))"
    by (rule head_viewdirs) (simp_all add: ch nv assms(6))
  have fw: "forward \<theta> net x
         = Inr (Tensor 4 (map2 (spec_view_head_row \<theta> ?al ?fl ?vl ?rl) (rows h) (rows input_views)))"
    unfolding forward_def net
    using head h by (simp add: split_ok[OF assms(3)] assms(5)[symmetric] assms(6)[symmetric])
  show ?thesis
    apply (rule exI[of _ ?al], rule exI[of _ ?fl], rule exI[of _ ?vl], rule exI[of _ ?rl],
        rule exI[of _ h])
    using fw h ch nx by (simp add: net)
qed

lemma upt_two: "[s..<s + 2 + n] = s # (s + 1) # [s + 2..<s + 2 + n]"
proof -
  have "[s..<s + 2 + n] = s # [Suc s..<s + 2 + n]"
    by (rule upt_conv_Cons) simp
  also have "[Suc s..<s + 2 + n] = Suc s # [Suc (Suc s)..<s + 2 + n]"
    by (rule upt_conv_Cons) simp
  finally show ?thesis by simp
qed

lemma params_linears_init:
  "concat (map linear_parameters (fst (linears_init shs s))) = [s..<s + 2 * length shs]"
proof (induction shs arbitrary: s)
  case Nil
  show ?case by simp
next
  case (Cons sh shs)
  have e: "s + 2 * length (sh # shs) = s + 2 + 2 * length shs" by simp
  have l: "concat (map linear_parameters (fst (linears_init (sh # shs) s)))
             = [s, s + 1] @ concat (map linear_parameters (fst (linears_init shs (s + 2))))"
    by (simp add: linears_init_Cons linear_parameters_def del: linears_init.simps)
  show ?case unfolding e l Cons.IH upt_two by simp
qed

lemma upt_8: "[n..<n + 8] = [n, n + 1, n + 2, n + 3, n + 4, n + 5, n + 6, n + 7]"
  by (simp add: upt_conv_Cons)

lemma upt_4: "[n..<n + 4] = [n, n + 1, n + 2, n + 3]"
  by (simp add: upt_conv_Cons)

lemma parameters_NeRF_init:
  "parameters (fst (NeRF_init d w ic icv oc sk uv s)) = [s..<snd (NeRF_init d w ic icv oc sk uv s)]"
proof -
  let ?n = "2 * length (pts_shapes d w ic sk)"
  show ?thesis
  proof (cases uv)
    case True
    have lhs: "parameters (fst (NeRF_init d w ic icv oc sk True s))
                 = [s..<s + ?n] @ [s + ?n, s + ?n + 1, s + ?n + 2, s + ?n + 3, s + ?n + 4,
                                   s + ?n + 5, s + ?n + 6, s + ?n + 7]"
      by (simp add: NeRF_init_True Let_def parameters_def params_linears_init
            linear_parameters_def option_list_def snd_linears_init)
    have rhs: "snd (NeRF_init d w ic icv oc sk True s) = s + ?n + 8"
      by (simp add: snd_NeRF_init snd_linears_init)
    have app: "[s..<s + ?n + 8] = [s..<s + ?n] @ [s + ?n..<s + ?n + 8]"
      by (rule upt_add_eq_append) simp
    show ?thesis using True by (simp only: lhs rhs app upt_8)
  next
    case False
    have lhs: "parameters (fst (NeRF_init d w ic icv oc sk False s))
                 = [s..<s + ?n] @ [s + ?n, s + ?n + 1, s + ?n + 2, s + ?n + 3]"
      by (simp add: NeRF_init_False Let_def parameters_def params_linears_init
            linear_parameters_def option_list_def snd_linears_init)
    have rhs: "snd (NeRF_init d w ic icv oc sk False s) = s + ?n + 4"
      by (simp add: snd_NeRF_init snd_linears_init)
    have app: "[s..<s + ?n + 4] = [s..<s + ?n] @ [s + ?n..<s + ?n + 4]"
      by (rule upt_add_eq_append) simp
    show ?thesis using False by (simp only: lhs rhs app upt_4)
  qed
qed

lemma NeRF_init_grows: "s \<le> snd (NeRF_init d w ic icv oc sk uv s)"
  by (simp add: snd_NeRF_init snd_linears_init)

lemma NeRF_init_attrs:
  "D (fst (NeRF_init d w ic icv oc sk uv s)) = d"
  "W (fst (NeRF_init d w ic icv oc sk uv s)) = w"
  "input_ch (fst (NeRF_init d w ic icv oc sk uv s)) = ic"
  "input_ch_views (fst (NeRF_init d w ic icv oc sk uv s)) = icv"
  "skips (fst (NeRF_init d w ic icv oc sk uv s)) = sk"
  "use_viewdirs (fst (NeRF_init d w ic icv oc sk uv s)) = uv"
  "map_option out_features (output_linear (fst (NeRF_init d w ic icv oc sk uv s)))
     = (if uv then None else Some oc)"
  by (cases uv; simp add: NeRF_init_True NeRF_init_False Let_def)+

lemma create_model_nets:
  assumes "create_model get_embedder args near far s = (lit, s')"
    and "ic = snd (get_embedder (args_multires args) (args_i_embed args))"
    and "icv = (if args_use_viewdirs args
                then snd (get_embedder (args_multires_views args) (args_i_embed args)) else 0)"
    and "oc = (if args_num_fine_samples args > 0 then 5 else 4)"
    and "coarse = NeRF_init (args_netdepth args) (args_netwidth args) ic icv oc [4]
                    (args_use_viewdirs args) s"
    and "fine = NeRF_init (args_netdepth_fine args) (args_netwidth_fine args) ic icv oc [4]
                    (args_use_viewdirs args) (snd coarse)"
  shows "model lit = fst coarse"
    and "model_fine lit = (if args_num_fine_samples args > 0 then Some (fst fine) else None)"
    and "s' = (if args_num_fine_samples args > 0 then snd fine else snd coarse)"
  using assms(1) unfolding assms(2-6)
  by (auto simp: create_model_def Let_def case_prod_unfold split: if_splits)

lemma map_result_ok:
  "(\<forall>x\<in>set xs. f x = Inr (g x)) \<Longrightarrow> map_result f xs = Inr (map g xs)"
  by (induction xs) simp_all

lemma slice_to_neg: "0 < k \<Longrightarrow> slice_to (- k) xs = take (length xs - nat k) xs"
  by (simp add: slice_to_def Let_def nat_diff_distrib' max_def)

lemma cat_fields:
  assumes "og \<noteq> []" "\<forall>out\<in>set og. fld out \<noteq> []"
  shows "bind_result (map_result (\<lambda>out. torch_cat0 (fld out)) og) torch_cat0
           = Inr (concat (map (\<lambda>out. concat (fld out)) og))"
proof -
  have "map_result (\<lambda>out. torch_cat0 (fld out)) og = Inr (map (\<lambda>out. concat (fld out)) og)"
    by (rule map_result_ok) (use assms(2) in \<open>simp add: torch_cat0_def\<close>)
  then show ?thesis using assms(1) by (simp add: torch_cat0_def)
qed

lemma dict_copy_id: "dict_copy d = d"
  by (rule ext) (auto simp: dict_copy_def dom_def)

lemma bind_result_split_error:
  "bind_result r f = Inl SplitSizeError
     \<longleftrightarrow> r = Inl SplitSizeError \<or> (\<exists>v. r = Inr v \<and> f v = Inl SplitSizeError)"
  by (cases r) simp_all

lemma linear_forward_no_split [simp]: "linear_forward \<theta> l h \<noteq> Inl SplitSizeError"
  by (simp add: linear_forward_def)

lemma torch_cat_no_split [simp]: "torch_cat a b \<noteq> Inl SplitSizeError"
  by (simp add: torch_cat_def)

lemma attr_no_split [simp]: "attr name v \<noteq> Inl SplitSizeError"
  by (simp add: attr_def split: option.splits)

lemma pts_loop_no_split [simp]: "pts_loop \<theta> sk pts i ls h \<noteq> Inl SplitSizeError"
  by (induction ls arbitrary: i h) (simp_all add: bind_result_split_error Let_def)

lemma views_loop_no_split [simp]: "views_loop \<theta> ls h \<noteq> Inl SplitSizeError"
  by (induction ls arbitrary: h) (simp_all add: bind_result_split_error)

lemma forward_no_split:
  "ncols x = input_ch net + input_ch_views net \<Longrightarrow> forward \<theta> net x \<noteq> Inl SplitSizeError"
  by (simp add: forward_def split_ok bind_result_split_error)

lemma mse_to_psnr_zero: "mse_to_psnr (Finite 0) = PosInf"
  by (simp add: mse_to_psnr_def f_log_def f_mul_def f_div_def signed_inf_def)

lemma mse_to_psnr_pos: "0 < m \<Longrightarrow> mse_to_psnr (Finite m) = Finite (- 10 * ln m / ln 10)"
  by (simp add: mse_to_psnr_def f_log_def f_mul_def f_div_def)

lemma f_add_not_finite_left: "\<not> is_finite a \<Longrightarrow> \<not> is_finite (f_add a b)"
  by (cases a; cases b) (simp_all add: is_finite_def f_add_def)

lemma f_add_PosInf: "\<not> is_finite (f_add a PosInf)"
  by (cases a) (simp_all add: is_finite_def f_add_def)

lemma foldl_not_finite: "\<not> is_finite a \<Longrightarrow> \<not> is_finite (foldl f_add a xs)"
  by (induction xs arbitrary: a) (simp_all add: f_add_not_finite_left)

lemma foldl_PosInf: "PosInf \<in> set xs \<Longrightarrow> \<not> is_finite (foldl f_add a xs)"
proof (induction xs arbitrary: a)
  case Nil
  then show ?case by simp
next
  case (Cons x xs)
  show ?case
  proof (cases "x = PosInf")
    case True
    then show ?thesis by (simp add: foldl_not_finite f_add_PosInf)
  next
    case False
    then show ?thesis using Cons by simp
  qed
qed

lemma f_div_not_finite: "\<not> is_finite a \<Longrightarrow> \<not> is_finite (f_div a (Finite b))"
  by (cases a) (simp_all add: is_finite_def f_div_def signed_inf_def)

lemma f_mean_PosInf: "PosInf \<in> set xs \<Longrightarrow> \<not> is_finite (f_mean xs)"
  unfolding f_mean_def by (rule f_div_not_finite) (rule foldl_PosInf)

lemma reshape_rows_ok:
  "0 < k \<Longrightarrow> length (concat t) mod k = 0 \<Longrightarrow> reshape_rows k t = Inr (chunks k (concat t))"
  by (simp add: reshape_rows_def)

section \<open>The claims\<close>

subsection \<open>C1: the view-dependent head\<close>

text \<open>
  C1 (amended).  Let the network be built by \<open>NeRF.__init__\<close> with \<open>use_viewdirs\<close> true
  and let the index of its last trunk layer, \<open>max 0 (D - 1)\<close>, not be a skip index.  For every
  input with \<open>input_ch + input_ch_views\<close> channels the trunk returns features \<open>h\<close> of width
  \<open>W\<close>, one row per input row, and \<open>forward\<close> returns a tensor of 4 channels whose rows are,
  for each row \<open>t\<close> of \<open>h\<close> and the view part \<open>v\<close> of the same input row: the density
  \<open>alpha_linear t\<close> (one linear layer \<open>W \<rightarrow> 1\<close>, no ReLU), the feature \<open>feature_linear t\<close>
  (linear, \<open>W \<rightarrow> W\<close>), the half-width layer \<open>W + input_ch_views \<rightarrow> W div 2\<close> with ReLU applied
  to feature joined with \<open>v\<close>, the linear head \<open>W div 2 \<rightarrow> 3\<close> giving RGB, and the row
  \<open>RGB @ density\<close>, in that order.
\<close>

theorem forward_viewdirs_head:
  fixes \<theta> :: "'a::{zero,plus,times,ord} params"
  assumes "max 0 (d - 1) \<notin> set sk" "wf_tensor x" "ncols x = ic + icv"
    and "net = fst (NeRF_init d w ic icv oc sk True s)"
    and "input_pts = Tensor ic (map (take ic) (rows x))"
    and "input_views = Tensor icv (map (drop ic) (rows x))"
  shows "\<exists>al fl vl rl h.
       alpha_linear net = Some al \<and> in_features al = w \<and> out_features al = 1
     \<and> feature_linear net = Some fl \<and> in_features fl = w \<and> out_features fl = w
     \<and> views_linears net = [vl] \<and> in_features vl = icv + w \<and> out_features vl = w div 2
     \<and> rgb_linear net = Some rl \<and> in_features rl = w div 2 \<and> out_features rl = 3
     \<and> pts_loop \<theta> sk input_pts 0 (pts_linears net) input_pts = Inr h
     \<and> ncols h = w \<and> nrows h = nrows x
     \<and> forward \<theta> net x
         = Inr (Tensor 4 (map2 (spec_view_head_row \<theta> al fl vl rl) (rows h) (rows input_views)))"
  using assms by (rule viewdirs_forward)

text \<open>
  An instance: depth 8, width 2, one point channel, one view channel, skip index 4.
\<close>

theorem forward_viewdirs_head_witness:
  "max 0 (8 - 1) \<notin> set [4::int]
   \<and> wf_tensor (Tensor 2 [[1, 2::int]])
   \<and> ncols (Tensor 2 [[1, 2::int]]) = 1 + 1
   \<and> (\<exists>al fl vl rl h.
         pts_loop (const_params 1) [4] (Tensor 1 [[1]]) 0
            (pts_linears (fst (NeRF_init 8 2 1 1 4 [4] True 0))) (Tensor 1 [[1]]) = Inr h
       \<and> ncols h = 2
       \<and> forward (const_params 1) (fst (NeRF_init 8 2 1 1 4 [4] True 0)) (Tensor 2 [[1, 2::int]])
           = Inr (Tensor 4 (map2 (spec_view_head_row (const_params 1) al fl vl rl) (rows h) [[2]])))"
proof -
  have h1: "max 0 (8 - 1) \<notin> set [4::int]" by simp
  have h2: "wf_tensor (Tensor 2 [[1, 2::int]])" by (simp add: wf_tensor_def)
  have h3: "ncols (Tensor 2 [[1, 2::int]]) = 1 + 1" by simp
  from forward_viewdirs_head[OF h1 h2 h3 refl refl refl,
      where \<theta> = "const_params 1" and w = 2 and oc = 4 and s = 0]
  obtain al fl vl rl h where
    "pts_loop (const_params 1) [4] (Tensor 1 (map (take 1) (rows (Tensor 2 [[1, 2::int]])))) 0
       (pts_linears (fst (NeRF_init 8 2 1 1 4 [4] True 0)))
       (Tensor 1 (map (take 1) (rows (Tensor 2 [[1, 2::int]])))) = Inr h"
    "ncols h = 2"
    "forward (const_params 1) (fst (NeRF_init 8 2 1 1 4 [4] True 0)) (Tensor 2 [[1, 2::int]])
       = Inr (Tensor 4 (map2 (spec_view_head_row (const_params 1) al fl vl rl) (rows h)
                (rows (Tensor 1 (map (drop 1) (rows (Tensor 2 [[1, 2::int]])))))))"
    by blast
  then have "pts_loop (const_params 1) [4] (Tensor 1 [[1]]) 0
            (pts_linears (fst (NeRF_init 8 2 1 1 4 [4] True 0))) (Tensor 1 [[1]]) = Inr h
       \<and> ncols h = 2
       \<and> forward (const_params 1) (fst (NeRF_init 8 2 1 1 4 [4] True 0)) (Tensor 2 [[1, 2::int]])
           = Inr (Tensor 4 (map2 (spec_view_head_row (const_params 1) al fl vl rl) (rows h) [[2]]))"
    by simp
  then show ?thesis using h1 h2 h3 by blast
qed

text \<open>
  With depth 5 and skip index 4 the last trunk layer is a skip layer: the trunk features
  have width \<open>input_ch + W\<close>, the density head expects \<open>W\<close>, and \<open>forward\<close> raises instead of
  returning (RGB, density).
\<close>

theorem forward_viewdirs_head_counterexample:
  "forward (const_params (1::int)) (fst (NeRF_init 5 2 1 1 4 [4] True 0)) (Tensor 2 [[1, 2]])
     = Inl ShapeError"
  by code_simp

subsection \<open>C2: trimming the padding rows after the gather\<close>

text \<open>
  C2 (amended).  For every non-empty list of gathered step outputs, each holding at least one
  device slice of rgb, target and depth, and every \<open>dummy_num \<ge> 0\<close>, \<open>gather_results\<close> returns
  the three concatenations, in gathered order (steps, then devices, then rows), each without
  its last \<open>dummy_num\<close> rows (without all its rows when it has fewer); with \<open>dummy_num = 0\<close>
  every row is kept.
\<close>

theorem gather_results_trim:
  assumes "all_gather outputs = og" "og \<noteq> []"
    and "\<forall>out\<in>set og. out_rgb out \<noteq> [] \<and> out_target out \<noteq> [] \<and> out_depth out \<noteq> []"
    and "0 \<le> dummy_num"
    and "rgbs = concat (map (\<lambda>out. concat (out_rgb out)) og)"
    and "tgt = concat (map (\<lambda>out. concat (out_target out)) og)"
    and "depths = concat (map (\<lambda>out. concat (out_depth out)) og)"
  shows "gather_results all_gather outputs dummy_num
           = Inr (take (length rgbs - nat dummy_num) rgbs,
                  take (length tgt - nat dummy_num) tgt,
                  take (length depths - nat dummy_num) depths)
       \<and> (dummy_num = 0 \<longrightarrow> gather_results all_gather outputs dummy_num = Inr (rgbs, tgt, depths))"
proof -
  have r: "bind_result (map_result (\<lambda>out. torch_cat0 (out_rgb out)) og) torch_cat0 = Inr rgbs"
    unfolding assms(5) by (rule cat_fields) (use assms(2,3) in auto)
  have t: "bind_result (map_result (\<lambda>out. torch_cat0 (out_target out)) og) torch_cat0 = Inr tgt"
    unfolding assms(6) by (rule cat_fields) (use assms(2,3) in auto)
  have p: "bind_result (map_result (\<lambda>out. torch_cat0 (out_depth out)) og) torch_cat0 = Inr depths"
    unfolding assms(7) by (rule cat_fields) (use assms(2,3) in auto)
  show ?thesis
  proof (cases "dummy_num = 0")
    case True
    then show ?thesis by (simp add: gather_results_def assms(1) r t p)
  next
    case False
    then have "0 < dummy_num" using assms(4) by simp
    then show ?thesis by (simp add: gather_results_def assms(1) r t p slice_to_neg)
  qed
qed

text \<open>
  An instance: one step gathered from two devices, one padding row.
\<close>

theorem gather_results_trim_witness:
  "gather_results id
     [\<lparr>out_rgb = [[[1, 2, 3], [4, 5, 6]], [[7, 8, 9::int]]],
       out_target = [[[0, 0, 0], [1, 1, 1]], [[2, 2, 2::int]]],
       out_depth = [[10, 20], [30::int]]\<rparr>] 1
   = Inr ([[1, 2, 3], [4, 5, 6]], [[0, 0, 0], [1, 1, 1]], [10, 20])"
proof -
  let ?og = "[\<lparr>out_rgb = [[[1, 2, 3], [4, 5, 6]], [[7, 8, 9::int]]],
       out_target = [[[0, 0, 0], [1, 1, 1]], [[2, 2, 2::int]]],
       out_depth = [[10, 20], [30::int]]\<rparr>]"
  have h1: "id ?og = ?og" by simp
  have h2: "?og \<noteq> []" by simp
  have h3: "\<forall>out\<in>set ?og. out_rgb out \<noteq> [] \<and> out_target out \<noteq> [] \<and> out_depth out \<noteq> []"
    by simp
  have h4: "(0::int) \<le> 1" by simp
  from gather_results_trim[where all_gather = id and outputs = ?og and og = ?og
      and dummy_num = 1, OF h1 h2 h3 h4 refl refl refl]
  show ?thesis by simp
qed

text \<open>
  For the empty list of step outputs the gather is empty and \<open>torch.cat\<close> raises: nothing
  is returned.
\<close>

theorem gather_results_trim_counterexample:
  "gather_results id ([] :: (int list, int) gathered list) 0 = Inl EmptyCatError"
  by (simp add: gather_results_def torch_cat0_def)

subsection \<open>C3: evaluation render settings\<close>

text \<open>
  C3.  The evaluation settings built by \<open>create_model\<close> have the keys of the training
  settings and the same value at every key other than \<open>perturb\<close> and \<open>raw_noise_std\<close>;
  \<open>perturb\<close> is \<open>False\<close> and \<open>raw_noise_std\<close> is \<open>0\<close>.
\<close>

theorem create_model_kwargs:
  fixes get_embedder :: "int \<Rightarrow> int \<Rightarrow> 'e \<times> nat"
  assumes "create_model get_embedder args near far s = (lit, s')"
  shows "render_kwargs_test lit ''perturb'' = Some (PyBool False)
       \<and> render_kwargs_test lit ''raw_noise_std'' = Some (PyFloat 0)
       \<and> (\<forall>k. k \<noteq> ''perturb'' \<and> k \<noteq> ''raw_noise_std'' \<longrightarrow>
              render_kwargs_test lit k = render_kwargs_train lit k)
       \<and> dom (render_kwargs_test lit) = dom (render_kwargs_train lit)"
proof -
  obtain tr where tr: "render_kwargs_train lit = tr"
    and te: "render_kwargs_test lit = tr(''perturb'' \<mapsto> PyBool False, ''raw_noise_std'' \<mapsto> PyFloat 0)"
    and d: "''perturb'' \<in> dom tr" "''raw_noise_std'' \<in> dom tr"
    using assms
    by (auto simp: create_model_def Let_def dict_copy_id split: prod.splits if_splits)
  show ?thesis unfolding te tr using d by auto
qed

text \<open>
  An instance: the example configuration, at the key \<open>near\<close>.
\<close>

theorem create_model_kwargs_witness:
  "''near'' \<noteq> ''perturb'' \<and> ''near'' \<noteq> ''raw_noise_std''
   \<and> render_kwargs_test (fst (create_model example_embedder example_args (PyFloat 2) (PyFloat 6) 0))
         ''near''
       = render_kwargs_train (fst (create_model example_embedder example_args (PyFloat 2) (PyFloat 6) 0))
         ''near''
   \<and> render_kwargs_test (fst (create_model example_embedder example_args (PyFloat 2) (PyFloat 6) 0))
         ''perturb'' = Some (PyBool False)
   \<and> render_kwargs_train (fst (create_model example_embedder example_args (PyFloat 2) (PyFloat 6) 0))
         ''perturb'' = Some (PyFloat 1)"
proof -
  let ?r = "create_model example_embedder example_args (PyFloat 2) (PyFloat 6) 0"
  have h: "?r = (fst ?r, snd ?r)" by simp
  have tr: "render_kwargs_train (fst ?r) ''perturb'' = Some (PyFloat 1)"
    by (simp add: create_model_def example_args_def example_embedder_def Let_def case_prod_unfold)
  from create_model_kwargs[OF h] tr show ?thesis by simp
qed

subsection \<open>C4: the training loss with a fine pass\<close>

text \<open>
  C4.  When the extras returned by the renderer hold the coarse RGB under \<open>"rgb0"\<close>,
  \<open>training_step\<close> returns the loss \<open>img2mse rgb target + img2mse extras["rgb0"] target\<close>:
  the error of the fine RGB plus the error of the coarse RGB against the same target.
\<close>

theorem training_step_loss:
  assumes "self_call (ray b) = (rgb, disp, acc, depth, extras)"
    and "extras ''rgb0'' = Some rgb0"
  shows "fst (training_step self_call img2mse mse2psnr b logged)
           = Inr (img2mse rgb (target b) + img2mse rgb0 (target b))"
  using assms by (simp add: training_step_def Let_def)

text \<open>
  An instance with scalar images: errors \<open>(7 - 4)\<^sup>2\<close> and \<open>(5 - 4)\<^sup>2\<close>.
\<close>

theorem training_step_loss_witness:
  "fst (training_step (\<lambda>r::nat. (7::int, 0::int, 0::int, 0::int, [''rgb0'' \<mapsto> 5::int]))
          (\<lambda>x y. (x - y) * (x - y)) (\<lambda>m. - m) \<lparr>ray = 1, target = 4\<rparr> [])
     = Inr (10::int)"
proof -
  have h1: "(\<lambda>r::nat. (7::int, 0::int, 0::int, 0::int, [''rgb0'' \<mapsto> 5::int]))
              (ray \<lparr>ray = 1::nat, target = 4::int\<rparr>)
            = (7, 0, 0, 0, [''rgb0'' \<mapsto> 5])"
    by simp
  have h2: "[''rgb0'' \<mapsto> 5::int] ''rgb0'' = Some 5" by simp
  from training_step_loss[where self_call = "\<lambda>r::nat. (7::int, 0::int, 0::int, 0::int, [''rgb0'' \<mapsto> 5::int])"
      and img2mse = "\<lambda>x y. (x - y) * (x - y)" and mse2psnr = "\<lambda>m. - m" and logged = "[]", OF h1 h2]
  show ?thesis by simp
qed

subsection \<open>C5: the shape of the network output\<close>

text \<open>
  C5 (amended).  For every network built by \<open>NeRF.__init__\<close> whose skip indices do not
  include the index of the last trunk layer, and every batch with
  \<open>input_ch + input_ch_views\<close> channels, \<open>forward\<close> returns a tensor with one row per input
  row and with \<open>output_ch\<close> channels when \<open>use_viewdirs\<close> is false, 4 channels (RGB and
  density) when it is true.  The shape does not depend on the skip indices.
\<close>

theorem forward_output_shape:
  fixes \<theta> :: "'a::{zero,plus,times,ord} params"
  assumes "max 0 (d - 1) \<notin> set sk" "wf_tensor x" "ncols x = ic + icv"
  shows "\<exists>out. forward \<theta> (fst (NeRF_init d w ic icv oc sk uv s)) x = Inr out
           \<and> wf_tensor out \<and> nrows out = nrows x \<and> ncols out = (if uv then 4 else oc)"
proof (cases uv)
  case True
  from viewdirs_forward[OF assms refl refl refl, where \<theta> = \<theta> and w = w and oc = oc and s = s]
  obtain al fl vl rl h where
    n: "nrows h = nrows x" and
    f: "forward \<theta> (fst (NeRF_init d w ic icv oc sk True s)) x
         = Inr (Tensor 4 (map2 (spec_view_head_row \<theta> al fl vl rl) (rows h)
                  (rows (Tensor icv (map (drop ic) (rows x))))))"
    and o: "out_features al = 1" "out_features rl = 3"
    by blast
  have "wf_tensor (Tensor 4 (map2 (spec_view_head_row \<theta> al fl vl rl) (rows h)
                  (rows (Tensor icv (map (drop ic) (rows x))))))"
    using o by (auto simp: wf_tensor_def list_all_iff spec_view_head_row_def Let_def elim!: in_set_zipE)
  then show ?thesis using True f n by (simp add: nrows_def)
next
  case False
  let ?s1 = "snd (linears_init (pts_shapes d w ic sk) s)"
  let ?ol = "\<lparr>in_features = w, out_features = oc, weight = ?s1 + 2, bias = ?s1 + 3\<rparr>"
  let ?pts = "Tensor ic (map (take ic) (rows x))"
  have wfp: "wf_tensor ?pts" by (rule wf_take[OF assms(2,3)])
  from trunk_ok[OF wfp refl, where \<theta> = \<theta> and sk = sk and d = d and w = w and s = s] assms(1)
  obtain h where h: "pts_loop \<theta> sk ?pts 0 (fst (linears_init (pts_shapes d w ic sk) s)) ?pts = Inr h"
    and nh: "nrows h = nrows ?pts" and ch: "ncols h = w"
    by (auto simp del: pts_loop.simps)
  have "forward \<theta> (fst (NeRF_init d w ic icv oc sk False s)) x
          = Inr (Tensor oc (map (linear_row \<theta> ?ol) (rows h)))"
    unfolding forward_def NeRF_init_False
    using h ch by (simp add: split_ok[OF assms(3)] Let_def linear_forward_def)
  then show ?thesis using False nh by (simp add: nrows_def wf_tensor_def list_all_iff)
qed

text \<open>
  An instance: depth 8, skip index 4, no view directions, five output channels.
\<close>

theorem forward_output_shape_witness:
  "max 0 (8 - 1) \<notin> set [4::int]
   \<and> wf_tensor (Tensor 2 [[1, 2], [3, 4::int]])
   \<and> ncols (Tensor 2 [[1, 2], [3, 4::int]]) = 1 + 1
   \<and> (\<exists>out. forward (const_params 1) (fst (NeRF_init 8 2 1 1 5 [4] False 0))
                (Tensor 2 [[1, 2], [3, 4::int]]) = Inr out
           \<and> wf_tensor out \<and> nrows out = 2 \<and> ncols out = 5)"
proof -
  have h1: "max 0 (8 - 1) \<notin> set [4::int]" by simp
  have h2: "wf_tensor (Tensor 2 [[1, 2], [3, 4::int]])" by (simp add: wf_tensor_def)
  have h3: "ncols (Tensor 2 [[1, 2], [3, 4::int]]) = 1 + 1" by simp
  from forward_output_shape[OF h1 h2 h3, where \<theta> = "const_params 1" and w = 2 and oc = 5
      and uv = False and s = 0]
  obtain out where o:
    "forward (const_params 1) (fst (NeRF_init 8 2 1 1 5 [4] False 0))
       (Tensor 2 [[1, 2], [3, 4::int]]) = Inr out"
    "wf_tensor out" "nrows out = nrows (Tensor 2 [[1, 2], [3, 4::int]])"
    "ncols out = (if False then 4 else 5)"
    by blast
  have "nrows out = 2" using o(3) by (simp add: nrows_def)
  moreover have "ncols out = 5" using o(4) by simp
  ultimately show ?thesis using h1 h2 h3 o(1,2) by blast
qed

text \<open>
  With view directions and \<open>output_ch = 5\<close> (the value \<open>create_model\<close> passes when there are
  fine samples) the output has 4 channels, not 5.
\<close>

theorem forward_output_shape_counterexample:
  "forward (const_params (1::int)) (fst (NeRF_init 8 2 1 1 5 [4] True 0)) (Tensor 2 [[1, 2]])
     = Inr (Tensor 4 [[1554, 1554, 1554, 775]])"
  by code_simp

subsection \<open>C6: the channel count of the input\<close>

text \<open>
  C6.  \<open>forward\<close> fails with the error of the split exactly when the channel count of the
  input is not \<open>input_ch + input_ch_views\<close>: a wrong count always raises it, and with the
  right count \<open>forward\<close> gets past the split, so whatever it then returns or raises is not
  that error.  For an input with the right count the split succeeds, its two parts have
  \<open>input_ch\<close> and \<open>input_ch_views\<close> channels and as many rows as the input, and joined row
  by row they are the input again: nothing is cut off.
\<close>

theorem forward_split_check:
  "(forward \<theta> net x = Inl SplitSizeError \<longleftrightarrow> ncols x \<noteq> input_ch net + input_ch_views net)
   \<and> (wf_tensor x \<and> ncols x = input_ch net + input_ch_views net \<longrightarrow>
        (\<exists>p v. torch_split x (input_ch net) (input_ch_views net) = Inr (p, v)
            \<and> wf_tensor p \<and> ncols p = input_ch net \<and> nrows p = nrows x
            \<and> wf_tensor v \<and> ncols v = input_ch_views net \<and> nrows v = nrows x
            \<and> map2 (@) (rows p) (rows v) = rows x))"
proof -
  have a: "forward \<theta> net x = Inl SplitSizeError \<longleftrightarrow> ncols x \<noteq> input_ch net + input_ch_views net"
    using forward_no_split[of x net \<theta>] by (auto simp: forward_def torch_split_def)
  have b: "wf_tensor x \<and> ncols x = input_ch net + input_ch_views net \<longrightarrow>
        (\<exists>p v. torch_split x (input_ch net) (input_ch_views net) = Inr (p, v)
            \<and> wf_tensor p \<and> ncols p = input_ch net \<and> nrows p = nrows x
            \<and> wf_tensor v \<and> ncols v = input_ch_views net \<and> nrows v = nrows x
            \<and> map2 (@) (rows p) (rows v) = rows x)"
    by (auto simp: torch_split_def wf_tensor_def list_all_iff nrows_def intro!: nth_equalityI)
  show ?thesis using a b by blast
qed

text \<open>
  Two instances: three channels where two are configured, and two channels.
\<close>

theorem forward_split_check_witness:
  "ncols (Tensor 3 [[1, 2, 3::int]])
      \<noteq> input_ch (fst (NeRF_init 8 2 1 1 4 [4] False 0))
        + input_ch_views (fst (NeRF_init 8 2 1 1 4 [4] False 0))
   \<and> forward (const_params 1) (fst (NeRF_init 8 2 1 1 4 [4] False 0)) (Tensor 3 [[1, 2, 3::int]])
       = Inl SplitSizeError
   \<and> wf_tensor (Tensor 2 [[1, 2::int]])
   \<and> forward (const_params 1) (fst (NeRF_init 8 2 1 1 4 [4] False 0)) (Tensor 2 [[1, 2::int]])
       \<noteq> Inl SplitSizeError
   \<and> torch_split (Tensor 2 [[1, 2::int]]) 1 1 = Inr (Tensor 1 [[1]], Tensor 1 [[2]])"
proof -
  let ?net = "fst (NeRF_init 8 2 1 1 4 [4] False 0)"
  have h1: "ncols (Tensor 3 [[1, 2, 3::int]]) \<noteq> input_ch ?net + input_ch_views ?net"
    by (simp add: NeRF_init_attrs)
  have h2: "wf_tensor (Tensor 2 [[1, 2::int]])
              \<and> ncols (Tensor 2 [[1, 2::int]]) = input_ch ?net + input_ch_views ?net"
    by (simp add: NeRF_init_attrs wf_tensor_def)
  from forward_split_check[of "const_params 1" ?net "Tensor 3 [[1, 2, 3::int]]"] h1
  have a: "forward (const_params 1) ?net (Tensor 3 [[1, 2, 3::int]]) = Inl SplitSizeError"
    by blast
  note t = forward_split_check[of "const_params (1::int)" ?net "Tensor 2 [[1, 2::int]]"]
  from t h2
  have n: "forward (const_params 1) ?net (Tensor 2 [[1, 2::int]]) \<noteq> Inl SplitSizeError"
    by blast
  from t h2
  obtain p v where "torch_split (Tensor 2 [[1, 2::int]]) (input_ch ?net) (input_ch_views ?net) = Inr (p, v)"
    by blast
  then have b: "torch_split (Tensor 2 [[1, 2::int]]) 1 1 = Inr (Tensor 1 [[1]], Tensor 1 [[2]])"
    by (simp add: torch_split_def)
  show ?thesis using h1 h2 a n b by blast
qed

subsection \<open>C7: the coarse and the fine network\<close>

text \<open>
  C7.  \<open>create_model\<close> builds the coarse network with the coarse depth and width.  It builds
  a fine network exactly when \<open>num_fine_samples > 0\<close>, and \<open>model_fine\<close> is \<open>None\<close> otherwise.
  The fine network is built by the same constructor from the same \<open>input_ch\<close>,
  \<open>input_ch_views\<close>, \<open>output_ch\<close>, skip indices and \<open>use_viewdirs\<close>, with the fine depth and
  width, and it owns no parameter of the coarse network.  The parameters allocated by
  \<open>create_model\<close> are those of the coarse network followed by those of the fine network,
  each once: nothing else is built.
\<close>

theorem create_model_networks:
  assumes "create_model get_embedder args near far s = (lit, s')"
    and "ic = snd (get_embedder (args_multires args) (args_i_embed args))"
    and "icv = (if args_use_viewdirs args
                then snd (get_embedder (args_multires_views args) (args_i_embed args)) else 0)"
    and "oc = (if args_num_fine_samples args > 0 then 5 else 4)"
    and "coarse = NeRF_init (args_netdepth args) (args_netwidth args) ic icv oc [4]
                    (args_use_viewdirs args) s"
    and "fine = NeRF_init (args_netdepth_fine args) (args_netwidth_fine args) ic icv oc [4]
                    (args_use_viewdirs args) (snd coarse)"
  shows "model lit = fst coarse
       \<and> (model_fine lit \<noteq> None \<longleftrightarrow> args_num_fine_samples args > 0)
       \<and> (\<forall>mf. model_fine lit = Some mf \<longrightarrow>
             mf = fst fine
           \<and> D mf = args_netdepth_fine args \<and> W mf = args_netwidth_fine args
           \<and> input_ch mf = input_ch (model lit)
           \<and> input_ch_views mf = input_ch_views (model lit)
           \<and> skips mf = skips (model lit)
           \<and> use_viewdirs mf = use_viewdirs (model lit)
           \<and> map_option out_features (output_linear mf)
               = map_option out_features (output_linear (model lit))
           \<and> set (parameters mf) \<inter> set (parameters (model lit)) = {})
       \<and> parameters (model lit) @ (case model_fine lit of None \<Rightarrow> [] | Some mf \<Rightarrow> parameters mf)
           = [s..<s']"
proof -
  note cm = create_model_nets[OF assms]
  have pc: "parameters (fst coarse) = [s..<snd coarse]"
    unfolding assms(5) by (rule parameters_NeRF_init)
  have pf: "parameters (fst fine) = [snd coarse..<snd fine]"
    unfolding assms(6) by (rule parameters_NeRF_init)
  have le1: "s \<le> snd coarse" unfolding assms(5) by (rule NeRF_init_grows)
  have le2: "snd coarse \<le> snd fine" unfolding assms(6) by (rule NeRF_init_grows)
  have app: "[s..<snd coarse] @ [snd coarse..<snd fine] = [s..<snd fine]"
    using le1 le2 by (metis le_Suc_ex upt_add_eq_append)
  have attrs: "D (fst fine) = args_netdepth_fine args" "W (fst fine) = args_netwidth_fine args"
    "input_ch (fst fine) = input_ch (fst coarse)"
    "input_ch_views (fst fine) = input_ch_views (fst coarse)"
    "skips (fst fine) = skips (fst coarse)"
    "use_viewdirs (fst fine) = use_viewdirs (fst coarse)"
    "map_option out_features (output_linear (fst fine))
       = map_option out_features (output_linear (fst coarse))"
    unfolding assms(5,6) by (simp_all add: NeRF_init_attrs)
  have disj: "set (parameters (fst fine)) \<inter> set (parameters (fst coarse)) = {}"
    unfolding pc pf by auto
  show ?thesis
  proof (cases "args_num_fine_samples args > 0")
    case True
    then show ?thesis using cm attrs disj pc pf app by simp
  next
    case False
    then show ?thesis using cm pc by simp
  qed
qed

text \<open>
  An instance: the example configuration, which asks for fine samples.
\<close>

theorem create_model_networks_witness:
  "args_num_fine_samples example_args > 0
   \<and> model_fine (fst (create_model example_embedder example_args PyNone PyNone 0)) \<noteq> None
   \<and> (\<exists>mf. model_fine (fst (create_model example_embedder example_args PyNone PyNone 0)) = Some mf
          \<and> set (parameters mf)
                \<inter> set (parameters (model (fst (create_model example_embedder example_args PyNone PyNone 0))))
              = {})"
proof -
  let ?r = "create_model example_embedder example_args PyNone PyNone 0"
  have h: "?r = (fst ?r, snd ?r)" by simp
  have p: "args_num_fine_samples example_args > 0" by (simp add: example_args_def)
  note t = create_model_networks[OF h refl refl refl refl refl]
  from t have a: "(model_fine (fst ?r) \<noteq> None) = (args_num_fine_samples example_args > 0)"
    by blast
  from t have b: "\<forall>mf. model_fine (fst ?r) = Some mf \<longrightarrow>
      set (parameters mf) \<inter> set (parameters (model (fst ?r))) = {}"
    by blast
  from a p obtain mf where m: "model_fine (fst ?r) = Some mf" by auto
  with b have "set (parameters mf) \<inter> set (parameters (model (fst ?r))) = {}" by blast
  with m a p show ?thesis by blast
qed

subsection \<open>C8: without view directions the view channels are ignored\<close>

text \<open>
  C8.  When \<open>use_viewdirs\<close> is false, two inputs with the same channel count whose rows agree
  on their first \<open>input_ch\<close> channels give the same result of \<open>forward\<close>, whatever their other
  channels hold.
\<close>

theorem forward_ignores_views:
  assumes "\<not> use_viewdirs net" "ncols x = ncols x'"
    and "map (take (input_ch net)) (rows x) = map (take (input_ch net)) (rows x')"
  shows "forward \<theta> net x = forward \<theta> net x'"
  using assms by (simp add: forward_def torch_split_def)

text \<open>
  An instance: two inputs that differ in the view channel only.
\<close>

theorem forward_ignores_views_witness:
  "\<not> use_viewdirs (fst (NeRF_init 8 2 1 1 4 [4] False 0))
   \<and> forward (const_params (1::int)) (fst (NeRF_init 8 2 1 1 4 [4] False 0)) (Tensor 2 [[1, 2]])
     = forward (const_params 1) (fst (NeRF_init 8 2 1 1 4 [4] False 0)) (Tensor 2 [[1, 7]])"
proof -
  let ?net = "fst (NeRF_init 8 2 1 1 4 [4] False 0)"
  have h1: "\<not> use_viewdirs ?net" by (simp add: NeRF_init_attrs)
  have h2: "ncols (Tensor 2 [[1, 2::int]]) = ncols (Tensor 2 [[1, 7::int]])" by simp
  have h3: "map (take (input_ch ?net)) (rows (Tensor 2 [[1, 2::int]]))
              = map (take (input_ch ?net)) (rows (Tensor 2 [[1, 7::int]]))"
    by (simp add: NeRF_init_attrs)
  from forward_ignores_views[OF h1 h2 h3, of "const_params 1"] h1
  show ?thesis by blast
qed

subsection \<open>C9: the validation PSNR is not clamped\<close>

text \<open>
  C9.  \<open>validation_epoch_end\<close> turns the mean squared error of each image into
  \<open>-10 * log(mse) / log(10)\<close> with nothing between the mean and the logarithm: for a positive
  error the value is that quotient, and for an error of zero it is \<open>+inf\<close>, which is not
  finite.  An image with zero error makes the logged mean PSNR non-finite as well.
\<close>

theorem validation_psnr_unclamped:
  assumes "gather_results all_gather outputs val_dummy = Inr (rgbs, tgt, depths)"
    and "0 < img_size"
    and "length (concat rgbs) mod (img_size * 3) = 0"
    and "length (concat tgt) = length (concat rgbs)"
    and "mse = map2 (\<lambda>t r. f_mean (map (\<lambda>d. f_mul d d) (map2 f_sub t r)))
                 (chunks (img_size * 3) (concat tgt)) (chunks (img_size * 3) (concat rgbs))"
  shows "validation_epoch_end all_gather outputs val_dummy img_size logged
           = Inr (f_mean (map mse_to_psnr mse),
                  logged @ [(''validation/psnr'', f_mean (map mse_to_psnr mse))])
       \<and> (\<forall>m. 0 < m \<longrightarrow> mse_to_psnr (Finite m) = Finite (- 10 * ln m / ln 10))
       \<and> mse_to_psnr (Finite 0) = PosInf
       \<and> \<not> is_finite (mse_to_psnr (Finite 0))
       \<and> (Finite 0 \<in> set mse \<longrightarrow> \<not> is_finite (f_mean (map mse_to_psnr mse)))"
proof -
  let ?k = "img_size * 3"
  have k: "0 < ?k" using assms(2) by simp
  have r: "reshape_rows ?k rgbs = Inr (chunks ?k (concat rgbs))"
    by (rule reshape_rows_ok[OF k assms(3)])
  have t: "reshape_rows ?k tgt = Inr (chunks ?k (concat tgt))"
    by (rule reshape_rows_ok[OF k]) (simp add: assms(3,4))
  have len: "length (chunks ?k (concat tgt)) = length (chunks ?k (concat rgbs))"
    by (simp add: chunks_def assms(4))
  have e: "elementwise f_sub (chunks ?k (concat tgt)) (chunks ?k (concat rgbs))
             = Inr (map2 (map2 f_sub) (chunks ?k (concat tgt)) (chunks ?k (concat rgbs)))"
    using len by (simp add: elementwise_def)
  have m: "map (\<lambda>row. f_mean (map (\<lambda>d. f_mul d d) row))
             (map2 (map2 f_sub) (chunks ?k (concat tgt)) (chunks ?k (concat rgbs))) = mse"
    unfolding assms(5) by (simp add: map_zip_map2[symmetric] zip_map_fst_snd comp_def case_prod_unfold)
  have main: "validation_epoch_end all_gather outputs val_dummy img_size logged
           = Inr (f_mean (map mse_to_psnr mse),
                  logged @ [(''validation/psnr'', f_mean (map mse_to_psnr mse))])"
    unfolding validation_epoch_end_def assms(1)
    by (simp only: bind_result_Inr prod.case r t e Let_def m)
  have inf: "Finite 0 \<in> set mse \<longrightarrow> \<not> is_finite (f_mean (map mse_to_psnr mse))"
  proof
    assume "Finite 0 \<in> set mse"
    then have "mse_to_psnr (Finite 0) \<in> set (map mse_to_psnr mse)" by simp
    then have "PosInf \<in> set (map mse_to_psnr mse)" by (simp only: mse_to_psnr_zero)
    then show "\<not> is_finite (f_mean (map mse_to_psnr mse))" by (rule f_mean_PosInf)
  qed
  show ?thesis
    using main inf mse_to_psnr_pos by (simp add: mse_to_psnr_zero is_finite_def)
qed

text \<open>
  An instance: one image of one pixel whose rendering equals its target.
\<close>

theorem validation_psnr_unclamped_witness:
  "gather_results id
     [\<lparr>out_rgb = [[[Finite 1, Finite 0, Finite (1 / 2)]]],
       out_target = [[[Finite 1, Finite 0, Finite (1 / 2)]]],
       out_depth = [[3::int]]\<rparr>] 0
     = Inr ([[Finite 1, Finite 0, Finite (1 / 2)]], [[Finite 1, Finite 0, Finite (1 / 2)]], [3])
   \<and> validation_epoch_end id
     [\<lparr>out_rgb = [[[Finite 1, Finite 0, Finite (1 / 2)]]],
       out_target = [[[Finite 1, Finite 0, Finite (1 / 2)]]],
       out_depth = [[3::int]]\<rparr>] 0 1 []
     = Inr (PosInf, [(''validation/psnr'', PosInf)])
   \<and> \<not> is_finite PosInf"
proof -
  let ?og = "[\<lparr>out_rgb = [[[Finite 1, Finite 0, Finite (1 / 2)]]],
       out_target = [[[Finite 1, Finite 0, Finite (1 / 2)]]],
       out_depth = [[3::int]]\<rparr>]"
  let ?row = "[[Finite 1, Finite 0, Finite (1 / 2)]]"
  have h1: "gather_results id ?og 0 = Inr (?row, ?row, [3])"
    by (simp add: gather_results_def torch_cat0_def)
  have h2: "(0::nat) < 1" by simp
  have h3: "length (concat ?row) mod (1 * 3) = 0" by simp
  have h4: "length (concat ?row) = length (concat ?row)" by simp
  have v: "f_mean (map mse_to_psnr (map2 (\<lambda>t r. f_mean (map (\<lambda>d. f_mul d d) (map2 f_sub t r)))
                 (chunks (1 * 3) (concat ?row)) (chunks (1 * 3) (concat ?row)))) = PosInf"
    by (simp add: chunks_def f_mean_def f_sub_def f_add_def f_neg_def f_mul_def f_div_def
          mse_to_psnr_def f_log_def signed_inf_def)
  from validation_psnr_unclamped[where all_gather = id and outputs = ?og and val_dummy = 0
      and img_size = 1 and logged = "[]", OF h1 h2 h3 h4 refl]
  have "validation_epoch_end id ?og 0 1 [] = Inr (PosInf, [(''validation/psnr'', PosInf)])"
    unfolding v by simp
  then show ?thesis using h1 by (simp add: is_finite_def)
qed

subsection \<open>C10: the training step without a fine pass\<close>

text \<open>
  C10.  When the extras hold no \<open>"rgb0"\<close>, \<open>training_step\<close> logs \<open>train/psnr1\<close> and then
  fails with the unbound local \<open>psnr0\<close> instead of returning a loss.  It returns a loss
  exactly when \<open>"rgb0"\<close> is among the extras.
\<close>

theorem training_step_unbound:
  assumes "self_call (ray b) = (rgb, disp, acc, depth, extras)"
  shows "(extras ''rgb0'' = None \<longrightarrow>
            training_step self_call img2mse mse2psnr b logged
              = (Inl (UnboundLocalError ''psnr0''),
                 logged @ [(''train/psnr1'', mse2psnr (img2mse rgb (target b)))]))
       \<and> ((\<exists>loss. fst (training_step self_call img2mse mse2psnr b logged) = Inr loss)
            \<longleftrightarrow> ''rgb0'' \<in> dom extras)"
  using assms by (auto simp: training_step_def Let_def split: option.splits)

text \<open>
  An instance: a renderer whose extras are empty.
\<close>

theorem training_step_unbound_witness:
  "training_step (\<lambda>r::nat. (7::int, 0::int, 0::int, 0::int, Map.empty))
      (\<lambda>x y. (x - y) * (x - y)) (\<lambda>m. - m) \<lparr>ray = 1, target = 4\<rparr> []
     = (Inl (UnboundLocalError ''psnr0''), [(''train/psnr1'', - 9::int)])"
proof -
  have h1: "(\<lambda>r::nat. (7::int, 0::int, 0::int, 0::int, (Map.empty :: string \<rightharpoonup> int)))
              (ray \<lparr>ray = 1::nat, target = 4::int\<rparr>)
            = (7, 0, 0, 0, Map.empty)"
    by simp
  from training_step_unbound[where self_call = "\<lambda>r::nat. (7::int, 0::int, 0::int, 0::int, (Map.empty :: string \<rightharpoonup> int))"
      and img2mse = "\<lambda>x y. (x - y) * (x - y)" and mse2psnr = "\<lambda>m. - m" and logged = "[]", OF h1]
  show ?thesis by simp
qed

end
